theory Spec2Isabelle
  imports Complex_Main
begin

section \<open>The retry wrapper (geminiService: withRetry)\<close>

text \<open>
  A value thrown by an operation. The wrapper reads two properties of it,
  \<^verbatim>\<open>error?.status\<close> and \<^verbatim>\<open>error?.error?.status\<close>; a property that is absent
  is \<open>None\<close>. The message stands for the rest of the thrown value, so that two
  different failures are different values.
\<close>

record thrown =
  status :: "int option"
  inner_status :: "int option"
  message :: string

text \<open>
  \<^verbatim>\<open>const status = error?.status || error?.error?.status;\<close>
  The left operand is taken when it is truthy: present and not zero.
\<close>

definition status_of :: "thrown \<Rightarrow> int option" where
  "status_of e =
     (case status e of
        Some n \<Rightarrow> (if n \<noteq> 0 then Some n else inner_status e)
      | None \<Rightarrow> inner_status e)"

text \<open>\<^verbatim>\<open>const isTransient = status === 503 || status === 504 || status === 429;\<close>\<close>

definition isTransient :: "thrown \<Rightarrow> bool" where
  "isTransient e =
     (status_of e = Some 503 \<or> status_of e = Some 504 \<or> status_of e = Some 429)"

text \<open>
  What the wrapper does to the outside world, in order: it invokes the operation,
  and it sleeps (\<^verbatim>\<open>setTimeout(resolve, delay)\<close>) for a number of milliseconds.
\<close>

datatype effect = Invoke | Wait int

text \<open>
  The operation \<^verbatim>\<open>fn: () => Promise<T>\<close> is a closure over a world it may change, so
  two invocations may end differently: it is a function from the world before the
  invocation to its outcome (\<open>Inl\<close> the thrown value, \<open>Inr\<close> the result) and the
  world after it.

  \<^verbatim>\<open>
  async function withRetry<T>(fn, retries = 3, delay = 1000): Promise<T> {
    try {
      return await fn();
    } catch (error: any) {
      const status = error?.status || error?.error?.status;
      const isTransient = status === 503 || status === 504 || status === 429;
      if (retries > 0 && isTransient) {
        await new Promise(resolve => setTimeout(resolve, delay));
        return withRetry(fn, retries - 1, delay * 2);
      }
      throw error;
    }
  }
  \<close>
  The result is the outcome, the world after the last invocation, and the effects
  in the order they happened.
\<close>

function withRetry ::
  "('s \<Rightarrow> (thrown + 'a) \<times> 's) \<Rightarrow> int \<Rightarrow> int \<Rightarrow> 's \<Rightarrow> ((thrown + 'a) \<times> 's) \<times> effect list"
where
  "withRetry fn retries delay s =
     (case fn s of
        (Inr v, s') \<Rightarrow> ((Inr v, s'), [Invoke])
      | (Inl e, s') \<Rightarrow>
          (if retries > 0 \<and> isTransient e then
             (case withRetry fn (retries - 1) (delay * 2) s' of
                (r, effects) \<Rightarrow> (r, Invoke # Wait delay # effects))
           else ((Inl e, s'), [Invoke])))"
  by pat_completeness auto
termination
  by (relation "measure (\<lambda>(fn, retries, delay, s). nat retries)") auto

declare withRetry.simps [simp del]

text \<open>The defaults of the two optional parameters.\<close>

definition default_retries :: int where
  "default_retries = 3"

definition default_delay :: int where
  "default_delay = 1000"

section \<open>Properties of the retry wrapper\<close>

lemma withRetry_success:
  "fn s = (Inr v, s') \<Longrightarrow> withRetry fn retries delay s = ((Inr v, s'), [Invoke])"
  by (subst withRetry.simps) simp

lemma withRetry_retry_step:
  assumes "fn s = (Inl e, s')" and "isTransient e" and "0 < retries"
  shows "withRetry fn retries delay s =
           (fst (withRetry fn (retries - 1) (delay * 2) s'),
            Invoke # Wait delay # snd (withRetry fn (retries - 1) (delay * 2) s'))"
  using assms by (subst withRetry.simps) (simp add: case_prod_beta)

lemma withRetry_exhausted:
  assumes "fn s = (Inl e, s')"
  shows "withRetry fn 0 delay s = ((Inl e, s'), [Invoke])"
  using assms by (subst withRetry.simps) simp

text \<open>
  An operation that fails with a transient status on every invocation, whatever the
  world it is invoked in.
\<close>

definition always_transient :: "('s \<Rightarrow> (thrown + 'a) \<times> 's) \<Rightarrow> bool" where
  "always_transient fn = (\<forall>s. \<exists>e. fst (fn s) = Inl e \<and> isTransient e)"

lemma always_transient_step:
  assumes "always_transient fn" and "0 < retries"
  shows "withRetry fn retries delay s =
           (fst (withRetry fn (retries - 1) (delay * 2) (snd (fn s))),
            Invoke # Wait delay # snd (withRetry fn (retries - 1) (delay * 2) (snd (fn s))))"
proof -
  from assms(1) obtain e where e: "fst (fn s) = Inl e" "isTransient e"
    unfolding always_transient_def by blast
  then have "fn s = (Inl e, snd (fn s))"
    by (metis prod.collapse)
  from withRetry_retry_step [of fn s, OF this e(2) assms(2)] show ?thesis .
qed

lemma always_transient_last:
  assumes "always_transient fn"
  shows "withRetry fn 0 delay s = (fn s, [Invoke])"
proof -
  from assms obtain e where e: "fst (fn s) = Inl e"
    unfolding always_transient_def by blast
  then have "fn s = (Inl e, snd (fn s))"
    by (metis prod.collapse)
  then show ?thesis
    using withRetry_exhausted [of fn s e "snd (fn s)" delay] by simp
qed

lemma always_transient_three_retries:
  assumes "always_transient fn"
  shows "withRetry fn 3 1000 s =
           (fn (snd (fn (snd (fn (snd (fn s)))))),
            [Invoke, Wait 1000, Invoke, Wait 2000, Invoke, Wait 4000, Invoke])"
proof -
  let ?s1 = "snd (fn s)"
  let ?s2 = "snd (fn ?s1)"
  let ?s3 = "snd (fn ?s2)"
  have r0: "withRetry fn 0 8000 ?s3 = (fn ?s3, [Invoke])"
    by (rule always_transient_last [OF assms])
  have r1: "withRetry fn 1 4000 ?s2 = (fn ?s3, [Invoke, Wait 4000, Invoke])"
    using always_transient_step [OF assms, of 1 4000 ?s2] r0 by simp
  have r2: "withRetry fn 2 2000 ?s1 =
              (fn ?s3, [Invoke, Wait 2000, Invoke, Wait 4000, Invoke])"
    using always_transient_step [OF assms, of 2 2000 ?s1] r1 by simp
  show ?thesis
    using always_transient_step [OF assms, of 3 1000 s] r2 by simp
qed

text \<open>
  With any number of retries and any first delay: one invocation more than retries,
  and between two invocations a wait twice as long as the one before.
\<close>

lemma always_transient_effects:
  assumes "always_transient fn"
  shows "snd (withRetry fn (int n) d s) =
           concat (map (\<lambda>i. [Invoke, Wait (d * 2 ^ i)]) [0..<n]) @ [Invoke]"
proof (induction n arbitrary: d s)
  case 0
  show ?case
    using always_transient_last [OF assms, of d s] by simp
next
  case (Suc n)
  have "snd (withRetry fn (int (Suc n)) d s) =
      Invoke # Wait d # snd (withRetry fn (int n) (d * 2) (snd (fn s)))"
    using always_transient_step [OF assms, of "int (Suc n)" d s] by simp
  also have "\<dots> = Invoke # Wait d #
      concat (map (\<lambda>i. [Invoke, Wait (d * 2 * 2 ^ i)]) [0..<n]) @ [Invoke]"
    by (simp add: Suc.IH)
  also have "\<dots> = concat (map (\<lambda>i. [Invoke, Wait (d * 2 ^ i)]) [0..<Suc n]) @ [Invoke]"
  proof -
    have "[0..<Suc n] = 0 # map Suc [0..<n]"
      by (simp add: upt_conv_Cons map_Suc_upt del: upt_Suc)
    then show ?thesis
      by (simp add: comp_def mult.assoc del: upt_Suc)
  qed
  finally show ?case .
qed

lemma always_transient_invocations:
  assumes "always_transient fn"
  shows "length (filter (\<lambda>x. x = Invoke) (snd (withRetry fn (int n) d s))) = n + 1"
  unfolding always_transient_effects [OF assms]
  by (induction n) simp_all

text \<open>
  C3. An operation that fails with a transient status (503, 504 or 429) on every
  invocation, wrapped with \<open>retries = 3\<close> and \<open>delay = 1000\<close>, is invoked exactly four
  times, with waits of 1000, 2000 and 4000 milliseconds between consecutive
  invocations, and the outcome of the wrapper is the outcome of the fourth
  invocation, which is a failure.
\<close>

theorem withRetry_always_transient:
  assumes "always_transient fn"
  shows "withRetry fn default_retries default_delay s =
           (fn (snd (fn (snd (fn (snd (fn s)))))),
            [Invoke, Wait 1000, Invoke, Wait 2000, Invoke, Wait 4000, Invoke])
         \<and> isl (fst (fn (snd (fn (snd (fn (snd (fn s))))))))
         \<and> length (filter (\<lambda>x. x = Invoke)
              (snd (withRetry fn default_retries default_delay s))) = nat default_retries + 1"
proof -
  let ?s3 = "snd (fn (snd (fn (snd (fn s)))))"
  from assms obtain e where "fst (fn ?s3) = Inl e"
    unfolding always_transient_def by blast
  then have "isl (fst (fn ?s3))"
    by simp
  with always_transient_three_retries [OF assms, of s] show ?thesis
    by (simp add: default_retries_def default_delay_def)
qed

text \<open>
  An operation that counts its invocations in the world and is rate-limited (429)
  every time.
\<close>

definition rate_limited :: "nat \<Rightarrow> (thrown + unit) \<times> nat" where
  "rate_limited n =
     (Inl \<lparr>status = Some 429, inner_status = None, message = ''Too Many Requests''\<rparr>, Suc n)"

theorem withRetry_always_transient_witness:
  "withRetry rate_limited default_retries default_delay 0 =
     ((Inl \<lparr>status = Some 429, inner_status = None, message = ''Too Many Requests''\<rparr>, 4),
      [Invoke, Wait 1000, Invoke, Wait 2000, Invoke, Wait 4000, Invoke])"
proof -
  have "always_transient rate_limited"
    by (simp add: always_transient_def rate_limited_def isTransient_def status_of_def)
  from withRetry_always_transient [OF this, of 0] show ?thesis
    by (simp add: rate_limited_def)
qed

text \<open>
  C7. When the invocation fails with a status that is not transient (the status the
  wrapper reads is none of 503, 504 and 429), the wrapper invokes the operation once,
  waits for nothing, and its outcome is that very failure, whatever the number of
  retries and the delay.
\<close>

theorem withRetry_non_transient:
  assumes "fn s = (Inl e, s')" and "\<not> isTransient e"
  shows "withRetry fn retries delay s = ((Inl e, s'), [Invoke])"
  using assms by (subst withRetry.simps) simp

definition not_found :: "nat \<Rightarrow> (thrown + unit) \<times> nat" where
  "not_found n =
     (Inl \<lparr>status = Some 404, inner_status = Some 503, message = ''Not Found''\<rparr>, Suc n)"

theorem withRetry_non_transient_witness:
  "withRetry not_found default_retries default_delay 0 =
     ((Inl \<lparr>status = Some 404, inner_status = Some 503, message = ''Not Found''\<rparr>, 1),
      [Invoke])"
proof -
  have f: "not_found 0 =
      (Inl \<lparr>status = Some 404, inner_status = Some 503, message = ''Not Found''\<rparr>, Suc 0)"
    by (simp add: not_found_def)
  have n: "\<not> isTransient \<lparr>status = Some 404, inner_status = Some 503, message = ''Not Found''\<rparr>"
    by (simp add: isTransient_def status_of_def)
  from withRetry_non_transient [of not_found 0, OF f n, of default_retries default_delay]
  show ?thesis
    by simp
qed

section \<open>Weather descriptions (weatherService: getWeatherDescription)\<close>

text \<open>
  The record the function returns. The source's fields are \<^verbatim>\<open>text\<close>, \<^verbatim>\<open>icon\<close>,
  \<^verbatim>\<open>bg\<close>, \<^verbatim>\<open>image\<close> and \<^verbatim>\<open>animate\<close>; they are prefixed here, \<^verbatim>\<open>text\<close> and
  \<^verbatim>\<open>image\<close> being taken in Isabelle.
\<close>

record description =
  d_text :: string
  d_icon :: string
  d_bg :: string
  d_image :: string
  d_animate :: string

text \<open>
  The table \<^verbatim>\<open>codes: Record<number, ...>\<close>, in the order of the source. A weather
  code is a JavaScript number, modelled as a real number, so that codes that are
  negative or not whole are inputs too (NaN, which fails every comparison and is
  no key of the table, behaves as a code in none of the ranges).
\<close>

definition codes_table :: "(real \<times> description) list" where
  "codes_table =
     [(0, \<lparr>d_text = ''Clear Sky'', d_icon = ''fa-sun'',
           d_bg = ''from-cyan-400 via-blue-500 to-indigo-600'',
           d_image = ''sunny'', d_animate = ''animate-slow-spin''\<rparr>),
      (1, \<lparr>d_text = ''Mainly Clear'', d_icon = ''fa-cloud-sun'',
           d_bg = ''from-sky-400 via-blue-500 to-blue-700'',
           d_image = ''clear-sky'', d_animate = ''animate-pulse-soft''\<rparr>),
      (2, \<lparr>d_text = ''Partly Cloudy'', d_icon = ''fa-cloud-sun'',
           d_bg = ''from-blue-300 via-sky-400 to-indigo-500'',
           d_image = ''partly-cloudy'', d_animate = ''animate-float''\<rparr>),
      (3, \<lparr>d_text = ''Overcast'', d_icon = ''fa-cloud'',
           d_bg = ''from-slate-400 via-gray-500 to-slate-600'',
           d_image = ''overcast'', d_animate = ''animate-sway''\<rparr>),
      (45, \<lparr>d_text = ''Fog'', d_icon = ''fa-smog'',
            d_bg = ''from-slate-500 via-zinc-600 to-slate-700'',
            d_image = ''foggy'', d_animate = ''animate-pulse-soft''\<rparr>),
      (48, \<lparr>d_text = ''Depositing Rime Fog'', d_icon = ''fa-smog'',
            d_bg = ''from-zinc-500 via-gray-600 to-zinc-700'',
            d_image = ''foggy'', d_animate = ''animate-pulse-soft''\<rparr>),
      (51, \<lparr>d_text = ''Light Drizzle'', d_icon = ''fa-cloud-rain'',
            d_bg = ''from-blue-500 via-indigo-600 to-violet-700'',
            d_image = ''drizzle'', d_animate = ''animate-bounce''\<rparr>),
      (61, \<lparr>d_text = ''Slight Rain'', d_icon = ''fa-cloud-showers-heavy'',
            d_bg = ''from-blue-700 via-indigo-800 to-slate-900'',
            d_image = ''rainy'', d_animate = ''animate-bounce''\<rparr>),
      (71, \<lparr>d_text = ''Slight Snow'', d_icon = ''fa-snowflake'',
            d_bg = ''from-blue-50 via-sky-100 to-indigo-200'',
            d_image = ''snowy'', d_animate = ''animate-sway''\<rparr>),
      (95, \<lparr>d_text = ''Thunderstorm'', d_icon = ''fa-bolt-lightning'',
            d_bg = ''from-gray-800 via-slate-900 to-black'',
            d_image = ''thunderstorm'', d_animate = ''animate-bolt''\<rparr>)]"

text \<open>\<^verbatim>\<open>codes[k]\<close>: the entry of the table, or \<^verbatim>\<open>undefined\<close> (\<open>None\<close>).\<close>

definition codes :: "real \<Rightarrow> description option" where
  "codes k = map_of codes_table k"

text \<open>The literal after \<^verbatim>\<open>result ||\<close>.\<close>

definition unknown_description :: description where
  "unknown_description =
     \<lparr>d_text = ''Unknown'', d_icon = ''fa-question'',
      d_bg = ''from-slate-600 via-gray-700 to-slate-800'',
      d_image = ''weather'', d_animate = []\<rparr>"

text \<open>
  \<^verbatim>\<open>
  let result;
  if (code >= 51 && code <= 55) result = codes[51];
  else if (code >= 61 && code <= 65) result = codes[61];
  else if (code >= 80 && code <= 82) result = codes[61];
  else if (code >= 71 && code <= 75) result = codes[71];
  else if (code >= 95) result = codes[95];
  else result = codes[code];
  return result || { text: 'Unknown', ... };
  \<close>
\<close>

definition lookup_result :: "real \<Rightarrow> description option" where
  "lookup_result code =
     (if code \<ge> 51 \<and> code \<le> 55 then codes 51
      else if code \<ge> 61 \<and> code \<le> 65 then codes 61
      else if code \<ge> 80 \<and> code \<le> 82 then codes 61
      else if code \<ge> 71 \<and> code \<le> 75 then codes 71
      else if code \<ge> 95 then codes 95
      else codes code)"

definition getWeatherDescription :: "real \<Rightarrow> description" where
  "getWeatherDescription code =
     (case lookup_result code of Some result \<Rightarrow> result | None \<Rightarrow> unknown_description)"

text \<open>
  The ranges of codes that have a description: 0 to 3, 45, 48, 51 to 55, 61 to 65,
  71 to 75, 80 to 82, and 95 and above.
\<close>

definition in_mapped_ranges :: "real \<Rightarrow> bool" where
  "in_mapped_ranges code =
     ((0 \<le> code \<and> code \<le> 3) \<or> code = 45 \<or> code = 48 \<or> (51 \<le> code \<and> code \<le> 55)
      \<or> (61 \<le> code \<and> code \<le> 65) \<or> (71 \<le> code \<and> code \<le> 75)
      \<or> (80 \<le> code \<and> code \<le> 82) \<or> 95 \<le> code)"

section \<open>Properties of the weather descriptions\<close>

lemma codes_in_table: "codes k = Some d \<Longrightarrow> d \<in> set (map snd codes_table)"
  unfolding codes_def by (metis map_of_SomeD set_zip_rightD zip_map_fst_snd)

lemma lookup_result_in_table:
  "lookup_result code = Some d \<Longrightarrow> d \<in> set (map snd codes_table)"
  unfolding lookup_result_def by (auto split: if_splits dest: codes_in_table)

lemma table_populated:
  "d \<in> set (map snd codes_table) \<Longrightarrow>
     d_text d \<noteq> [] \<and> d_icon d \<noteq> [] \<and> d_bg d \<noteq> [] \<and> d_image d \<noteq> []"
  unfolding codes_table_def by auto

lemma codes_outside: "\<not> in_mapped_ranges code \<Longrightarrow> codes code = None"
  unfolding in_mapped_ranges_def codes_def codes_table_def by auto

lemma lookup_result_outside: "\<not> in_mapped_ranges code \<Longrightarrow> lookup_result code = None"
proof -
  assume out: "\<not> in_mapped_ranges code"
  then have "lookup_result code = codes code"
    unfolding in_mapped_ranges_def lookup_result_def by auto
  with codes_outside [OF out] show ?thesis
    by simp
qed

text \<open>
  C10. The function is total: for every code the result is an entry of the table or
  the fallback record, so its text, icon, background and image are never empty (the
  fallback's \<^verbatim>\<open>animate\<close> is the empty string, as written). Every code outside the
  mapped ranges gives the fallback record.
\<close>

theorem getWeatherDescription_total:
  "(getWeatherDescription code \<in> set (map snd codes_table)
      \<or> getWeatherDescription code = unknown_description)
   \<and> d_text (getWeatherDescription code) \<noteq> []
   \<and> d_icon (getWeatherDescription code) \<noteq> []
   \<and> d_bg (getWeatherDescription code) \<noteq> []
   \<and> d_image (getWeatherDescription code) \<noteq> []
   \<and> (\<not> in_mapped_ranges code \<longrightarrow> getWeatherDescription code = unknown_description)"
proof (cases "lookup_result code")
  case None
  then have u: "getWeatherDescription code = unknown_description"
    by (simp add: getWeatherDescription_def)
  show ?thesis
    unfolding u by (simp add: unknown_description_def)
next
  case (Some d)
  then have g: "getWeatherDescription code = d"
    by (simp add: getWeatherDescription_def)
  have t: "d \<in> set (map snd codes_table)"
    by (rule lookup_result_in_table [OF Some])
  have "in_mapped_ranges code"
    using Some lookup_result_outside [of code] by auto
  with t table_populated [OF t] show ?thesis
    unfolding g by simp
qed

text \<open>
  Code 77 (snow grains) is in none of the ranges; code 2.5 is between two keys of the
  table and finds no entry either.
\<close>

theorem getWeatherDescription_total_witness:
  "\<not> in_mapped_ranges 77 \<and> getWeatherDescription 77 = unknown_description
   \<and> d_text (getWeatherDescription 77) = ''Unknown''"
proof -
  have out: "\<not> in_mapped_ranges 77"
    by (simp add: in_mapped_ranges_def)
  with getWeatherDescription_total [of 77] show ?thesis
    by (simp add: unknown_description_def)
qed

lemma getWeatherDescription_examples:
  "d_text (getWeatherDescription 0) = ''Clear Sky''"
  "d_text (getWeatherDescription 53) = ''Light Drizzle''"
  "d_text (getWeatherDescription 81) = ''Slight Rain''"
  "d_text (getWeatherDescription 99) = ''Thunderstorm''"
  "getWeatherDescription 2.5 = unknown_description"
  "getWeatherDescription (-1) = unknown_description"
  by (simp_all add: getWeatherDescription_def lookup_result_def codes_def codes_table_def)

section \<open>The network, as the services see it\<close>

text \<open>
  A call of \<^verbatim>\<open>fetch\<close> either rejects (no connection, a blocked request) or resolves
  to a response, whatever its HTTP status. Of a response the code reads the flag
  \<^verbatim>\<open>ok\<close>, the header \<^verbatim>\<open>content-type\<close> and the body through \<^verbatim>\<open>json()\<close>, which
  rejects when the body is not JSON: \<open>None\<close>. A body that is JSON is modelled by
  the properties the caller reads from it.
\<close>

datatype 'b response = Response (ok: bool) (content_type: "string option") (json: "'b option")

datatype 'b fetched = Rejected | Resolved "'b response"

text \<open>What a service function throws (its promise rejects with).\<close>

datatype failure =
    NetworkFailure
  | SyntaxFailure
  | ErrorThrown string
  | ReferenceError string

text \<open>The requests the services issue, recorded in the order they are issued.\<close>

datatype request =
    ForecastRequest real real
  | AirQualityRequest real real
  | GeocodingRequest string
  | NewsProxyRequest string

section \<open>Location search (weatherService: searchLocation)\<close>

text \<open>\<^verbatim>\<open>interface GeocodingResult\<close> of types.ts.\<close>

record GeocodingResult =
  name :: string
  country :: string
  latitude :: real
  longitude :: real

text \<open>
  An item of the geocoding service's \<^verbatim>\<open>results\<close> has more properties than the four
  the code copies; \<open>admin\<close> stands for them.
\<close>

record geocoding_item = GeocodingResult +
  admin :: string

text \<open>
  \<^verbatim>\<open>String.prototype.toLowerCase\<close> is a built-in of the language, which folds every
  cased letter: it is a parameter \<open>toLowerCase\<close> of the definitions below, and what
  is proved of them holds whatever function it is.

  For the examples: the function that folds the letters A to Z and leaves every
  other character as it is, which is what the built-in does on a string of ASCII
  characters.
\<close>

definition ascii_lower_char :: "char \<Rightarrow> char" where
  "ascii_lower_char c =
     (case map_of (zip ''ABCDEFGHIJKLMNOPQRSTUVWXYZ'' ''abcdefghijklmnopqrstuvwxyz'') c of
        Some l \<Rightarrow> l
      | None \<Rightarrow> c)"

definition ascii_toLowerCase :: "string \<Rightarrow> string" where
  "ascii_toLowerCase s = map ascii_lower_char s"

text \<open>\<^verbatim>\<open>const key = `${res.name}|${res.country}`.toLowerCase();\<close>\<close>

definition result_key :: "(string \<Rightarrow> string) \<Rightarrow> GeocodingResult \<Rightarrow> string" where
  "result_key toLowerCase res = toLowerCase (name res @ ''|'' @ country res)"

text \<open>
  \<^verbatim>\<open>
  const uniqueResultsMap = new Map<string, GeocodingResult>();
  mappedResults.forEach(res => {
    const key = `${res.name}|${res.country}`.toLowerCase();
    if (!uniqueResultsMap.has(key)) {
      uniqueResultsMap.set(key, res);
    }
  });
  \<close>
  A \<^verbatim>\<open>Map\<close> keeps its entries in the order of insertion: it is an association list,
  and \<^verbatim>\<open>set\<close> of a key it does not have appends.
\<close>

fun uniqueResultsMap ::
  "(string \<Rightarrow> string) \<Rightarrow> (string \<times> GeocodingResult) list \<Rightarrow> GeocodingResult list
     \<Rightarrow> (string \<times> GeocodingResult) list"
where
  "uniqueResultsMap toLowerCase m [] = m"
| "uniqueResultsMap toLowerCase m (res # rest) =
     (let key = result_key toLowerCase res in
      if map_of m key = None then uniqueResultsMap toLowerCase (m @ [(key, res)]) rest
      else uniqueResultsMap toLowerCase m rest)"

text \<open>
  \<^verbatim>\<open>data.results.map((item: any) => ({ name: item.name, country: item.country,
  latitude: item.latitude, longitude: item.longitude }))\<close>
\<close>

definition mappedResults :: "geocoding_item list \<Rightarrow> GeocodingResult list" where
  "mappedResults results =
     map (\<lambda>item. \<lparr>name = name item, country = country item,
                  latitude = latitude item, longitude = longitude item\<rparr>) results"

text \<open>
  \<^verbatim>\<open>
  export const searchLocation = async (query: string): Promise<GeocodingResult[]> => {
    if (query.length < 2) return [];
    const response = await fetch(`${GEO_URL}?name=${encodeURIComponent(query)}&count=10...`);
    const data = await response.json();
    if (!data.results) return [];
    const mappedResults = ...;
    const uniqueResultsMap = ...;
    return Array.from(uniqueResultsMap.values()).slice(0, 5);
  };
  \<close>
  The geocoding service is a function from the query to what \<^verbatim>\<open>fetch\<close> gives; its
  body is the property \<^verbatim>\<open>results\<close>, \<open>None\<close> when it is absent. The function does not
  look at \<^verbatim>\<open>response.ok\<close>. The result is the outcome and the requests issued.
\<close>

definition searchLocation ::
  "(string \<Rightarrow> string) \<Rightarrow> (string \<Rightarrow> geocoding_item list option fetched) \<Rightarrow> string
     \<Rightarrow> (failure + GeocodingResult list) \<times> request list"
where
  "searchLocation toLowerCase geo query =
     (if length query < 2 then (Inr [], [])
      else
        (case geo query of
           Rejected \<Rightarrow> (Inl NetworkFailure, [GeocodingRequest query])
         | Resolved response \<Rightarrow>
             (case json response of
                None \<Rightarrow> (Inl SyntaxFailure, [GeocodingRequest query])
              | Some None \<Rightarrow> (Inr [], [GeocodingRequest query])
              | Some (Some results) \<Rightarrow>
                  (Inr (take 5 (map snd (uniqueResultsMap toLowerCase []
                          (mappedResults results)))),
                   [GeocodingRequest query]))))"

text \<open>
  The two callers in App.tsx, \<^verbatim>\<open>handleSearchChange\<close> and
  \<^verbatim>\<open>handleSettingsSearchChange\<close>, have a guard of their own:
  \<^verbatim>\<open>
  if (val.length > 2) {
    const results = await searchLocation(val);
    setSearchResults(results);
  } else {
    setSearchResults([]);
  }
  \<close>
  The result is the new list of search results when the handler completes (\<open>Inl\<close>
  when \<^verbatim>\<open>searchLocation\<close> throws, the list then being left as it was) and the
  requests issued.
\<close>

definition handleSearchChange ::
  "(string \<Rightarrow> string) \<Rightarrow> (string \<Rightarrow> geocoding_item list option fetched) \<Rightarrow> string
     \<Rightarrow> (failure + GeocodingResult list) \<times> request list"
where
  "handleSearchChange toLowerCase geo val =
     (if length val > 2 then searchLocation toLowerCase geo val else (Inr [], []))"

section \<open>Properties of the location search\<close>

lemma uniqueResultsMap_new:
  "map_of m (result_key toLowerCase res) = None \<Longrightarrow>
     uniqueResultsMap toLowerCase m (res # rest) =
       uniqueResultsMap toLowerCase (m @ [(result_key toLowerCase res, res)]) rest"
  by (simp add: Let_def)

lemma uniqueResultsMap_old:
  "map_of m (result_key toLowerCase res) \<noteq> None \<Longrightarrow>
     uniqueResultsMap toLowerCase m (res # rest) = uniqueResultsMap toLowerCase m rest"
  by (auto simp add: Let_def)

lemma uniqueResultsMap_keys:
  "map fst m = map (result_key toLowerCase) (map snd m) \<Longrightarrow>
     map fst (uniqueResultsMap toLowerCase m rs) =
       map (result_key toLowerCase) (map snd (uniqueResultsMap toLowerCase m rs))"
proof (induction rs arbitrary: m)
  case Nil
  then show ?case by simp
next
  case (Cons res rest)
  show ?case
  proof (cases "map_of m (result_key toLowerCase res) = None")
    case True
    from Cons.prems
    have "map fst (m @ [(result_key toLowerCase res, res)]) =
        map (result_key toLowerCase)
          (map snd (m @ [(result_key toLowerCase res, res)]))"
      by simp
    from Cons.IH [OF this] show ?thesis
      unfolding uniqueResultsMap_new [OF True] .
  next
    case False
    from Cons.IH [OF Cons.prems] show ?thesis
      unfolding uniqueResultsMap_old [OF False] .
  qed
qed

lemma uniqueResultsMap_distinct:
  "distinct (map fst m) \<Longrightarrow> distinct (map fst (uniqueResultsMap toLowerCase m rs))"
proof (induction rs arbitrary: m)
  case Nil
  then show ?case by simp
next
  case (Cons res rest)
  show ?case
  proof (cases "map_of m (result_key toLowerCase res) = None")
    case True
    then have "result_key toLowerCase res \<notin> fst ` set m"
      by (simp add: map_of_eq_None_iff)
    with Cons.prems have "distinct (map fst (m @ [(result_key toLowerCase res, res)]))"
      by simp
    from Cons.IH [OF this] show ?thesis
      unfolding uniqueResultsMap_new [OF True] .
  next
    case False
    from Cons.IH [OF Cons.prems] show ?thesis
      unfolding uniqueResultsMap_old [OF False] .
  qed
qed

lemma unique_values_distinct:
  "distinct (map (result_key toLowerCase)
     (take n (map snd (uniqueResultsMap toLowerCase [] rs))))"
proof -
  have "distinct (map fst (uniqueResultsMap toLowerCase [] rs))"
    by (rule uniqueResultsMap_distinct) simp
  moreover have "map fst (uniqueResultsMap toLowerCase [] rs) =
      map (result_key toLowerCase) (map snd (uniqueResultsMap toLowerCase [] rs))"
    by (rule uniqueResultsMap_keys) simp
  ultimately have "distinct (map (result_key toLowerCase)
      (map snd (uniqueResultsMap toLowerCase [] rs)))"
    by simp
  then have "distinct (take n (map (result_key toLowerCase)
      (map snd (uniqueResultsMap toLowerCase [] rs))))"
    by (rule distinct_take)
  then show ?thesis
    by (simp add: take_map)
qed

text \<open>
  C8. Whatever the geocoding service returns, and whatever function the built-in
  \<^verbatim>\<open>toLowerCase\<close> is, the list \<^verbatim>\<open>searchLocation\<close> resolves to has no two entries with
  the same lower-cased \<^verbatim>\<open>name|country\<close> key, and at most five entries.
\<close>

theorem searchLocation_unique_and_bounded:
  assumes "fst (searchLocation toLowerCase geo query) = Inr out"
  shows "distinct (map (result_key toLowerCase) out) \<and> length out \<le> 5"
proof (cases "length query < 2")
  case True
  with assms show ?thesis
    by (simp add: searchLocation_def)
next
  case False
  show ?thesis
  proof (cases "geo query")
    case Rejected
    with assms False show ?thesis
      by (simp add: searchLocation_def)
  next
    case (Resolved response)
    show ?thesis
    proof (cases "json response")
      case None
      with assms False Resolved show ?thesis
        by (simp add: searchLocation_def)
    next
      case (Some data)
      show ?thesis
      proof (cases data)
        case None
        with assms False Resolved Some show ?thesis
          by (simp add: searchLocation_def)
      next
        case inner: (Some results)
        with assms False Resolved Some
        have "out =
            take 5 (map snd (uniqueResultsMap toLowerCase [] (mappedResults results)))"
          by (simp add: searchLocation_def)
        then show ?thesis
          using unique_values_distinct [of toLowerCase 5 "mappedResults results"] by simp
      qed
    qed
  qed
qed

text \<open>
  Two results for Paris that differ in case only give one entry.
\<close>

definition paris_upper :: geocoding_item where
  "paris_upper = \<lparr>name = ''Paris'', country = ''France'',
                   latitude = 48.85341, longitude = 2.3488, admin = ''Ile-de-France''\<rparr>"

definition paris_lower :: geocoding_item where
  "paris_lower = \<lparr>name = ''paris'', country = ''FRANCE'',
                   latitude = 48.85341, longitude = 2.3488, admin = ''Ile-de-France''\<rparr>"

definition geo_paris :: "string \<Rightarrow> geocoding_item list option fetched" where
  "geo_paris query =
     Resolved (Response True (Some ''application/json'') (Some (Some [paris_upper, paris_lower])))"

lemma searchLocation_paris:
  "searchLocation ascii_toLowerCase geo_paris ''Paris'' =
     (Inr [\<lparr>name = ''Paris'', country = ''France'', latitude = 48.85341, longitude = 2.3488\<rparr>],
      [GeocodingRequest ''Paris''])"
  by (simp add: searchLocation_def geo_paris_def mappedResults_def paris_upper_def
      paris_lower_def result_key_def ascii_toLowerCase_def ascii_lower_char_def Let_def)

theorem searchLocation_unique_and_bounded_witness:
  "fst (searchLocation ascii_toLowerCase geo_paris ''Paris'') =
     Inr [\<lparr>name = ''Paris'', country = ''France'', latitude = 48.85341, longitude = 2.3488\<rparr>]
   \<and> length [\<lparr>name = ''Paris'', country = ''France'',
               latitude = 48.85341, longitude = 2.3488\<rparr>] = 1
   \<and> distinct (map (result_key ascii_toLowerCase)
        [\<lparr>name = ''Paris'', country = ''France'', latitude = 48.85341, longitude = 2.3488\<rparr>])"
proof -
  have r: "fst (searchLocation ascii_toLowerCase geo_paris ''Paris'') =
      Inr [\<lparr>name = ''Paris'', country = ''France'', latitude = 48.85341, longitude = 2.3488\<rparr>]"
    by (simp add: searchLocation_paris)
  from searchLocation_unique_and_bounded [OF r] r show ?thesis
    by simp
qed

text \<open>
  C4, for the queries the guard \<^verbatim>\<open>query.length < 2\<close> stops. A query of fewer than two
  characters resolves to the empty list and issues no request.
\<close>

theorem searchLocation_short_query:
  assumes "length query < 2"
  shows "searchLocation toLowerCase geo query = (Inr [], [])"
  using assms by (simp add: searchLocation_def)

theorem searchLocation_short_query_witness:
  "length ''P'' < 2 \<and> searchLocation ascii_toLowerCase geo_paris ''P'' = (Inr [], [])"
proof -
  have l: "length ''P'' < 2"
    by simp
  from searchLocation_short_query [OF l, of ascii_toLowerCase geo_paris] l show ?thesis
    by simp
qed

text \<open>
  A query of exactly two characters passes the guard \<^verbatim>\<open>query.length < 2\<close>: the
  request is issued and its results are returned.
\<close>

theorem searchLocation_two_characters_counterexample:
  "length ''Pa'' \<le> 2
   \<and> snd (searchLocation ascii_toLowerCase geo_paris ''Pa'') = [GeocodingRequest ''Pa'']
   \<and> fst (searchLocation ascii_toLowerCase geo_paris ''Pa'') =
       Inr [\<lparr>name = ''Paris'', country = ''France'', latitude = 48.85341, longitude = 2.3488\<rparr>]"
  by (simp add: searchLocation_def geo_paris_def mappedResults_def paris_upper_def
      paris_lower_def result_key_def ascii_toLowerCase_def ascii_lower_char_def Let_def)

lemma handleSearchChange_short:
  "length val \<le> 2 \<Longrightarrow> handleSearchChange toLowerCase geo val = (Inr [], [])"
  by (simp add: handleSearchChange_def)

lemma searchLocation_request:
  "2 \<le> length query \<Longrightarrow> snd (searchLocation toLowerCase geo query) = [GeocodingRequest query]"
  by (simp add: searchLocation_def split: fetched.splits option.splits)

section \<open>Weather data (types.ts: WeatherData)\<close>

text \<open>
  \<^verbatim>\<open>interface WeatherData\<close>. The fields of \<^verbatim>\<open>hourly\<close> and \<^verbatim>\<open>daily\<close> that share a name
  with a field of another part are prefixed. A number is the real number a double
  stands for.
\<close>

record current_weather =
  temp :: real
  weatherCode :: real
  isDay :: bool
  windSpeed :: real
  windDirection :: real
  humidity :: real
  uvIndex :: real
  apparentTemp :: real
  aqi :: real

record hourly_series =
  hourly_time :: "string list"
  hourly_temperature :: "real list"
  hourly_precipitation :: "real list"
  hourly_weatherCode :: "real list"

record daily_series =
  daily_time :: "string list"
  tempMax :: "real list"
  tempMin :: "real list"
  daily_weatherCode :: "real list"

record weather_location = GeocodingResult +
  timezone :: string

record WeatherData =
  current :: current_weather
  hourly :: hourly_series
  daily :: daily_series
  location :: weather_location

text \<open>
  The body of the forecast service's response, by the properties \<^verbatim>\<open>fetchWeather\<close>
  reads: \<^verbatim>\<open>current.temperature_2m\<close> is \<open>cur_temperature_2m\<close>, and so on.
\<close>

record forecast_current =
  cur_temperature_2m :: real
  cur_weather_code :: real
  cur_is_day :: real
  cur_wind_speed_10m :: real
  cur_wind_direction_10m :: real
  cur_relative_humidity_2m :: real
  cur_uv_index :: real
  cur_apparent_temperature :: real

record forecast_hourly =
  hr_time :: "string list"
  hr_temperature_2m :: "real list"
  hr_precipitation_probability :: "real list"
  hr_weather_code :: "real list"

record forecast_daily =
  dy_time :: "string list"
  dy_temperature_2m_max :: "real list"
  dy_temperature_2m_min :: "real list"
  dy_weather_code :: "real list"

record forecast_json =
  fc_current :: forecast_current
  fc_hourly :: forecast_hourly
  fc_daily :: forecast_daily
  fc_timezone :: string

section \<open>The weather fetch (weatherService: fetchWeather)\<close>

text \<open>
  The two services \<^verbatim>\<open>fetchWeather\<close> calls, as functions from the coordinates in the
  query string to what \<^verbatim>\<open>fetch\<close> gives. The body of the air-quality response is the
  value of \<^verbatim>\<open>aqiData.current?.us_aqi\<close>, \<open>None\<close> when it is absent.
\<close>

record network =
  forecast_api :: "real \<Rightarrow> real \<Rightarrow> forecast_json fetched"
  air_quality_api :: "real \<Rightarrow> real \<Rightarrow> real option fetched"

text \<open>The object literal \<^verbatim>\<open>fetchWeather\<close> returns.\<close>

definition weather_of ::
  "forecast_json \<Rightarrow> real \<Rightarrow> real \<Rightarrow> real \<Rightarrow> string \<Rightarrow> string \<Rightarrow> WeatherData"
where
  "weather_of weatherData aqiValue lat lon locationName country' =
     \<lparr>current =
        \<lparr>temp = cur_temperature_2m (fc_current weatherData),
         weatherCode = cur_weather_code (fc_current weatherData),
         isDay = (cur_is_day (fc_current weatherData) = 1),
         windSpeed = cur_wind_speed_10m (fc_current weatherData),
         windDirection = cur_wind_direction_10m (fc_current weatherData),
         humidity = cur_relative_humidity_2m (fc_current weatherData),
         uvIndex = cur_uv_index (fc_current weatherData),
         apparentTemp = cur_apparent_temperature (fc_current weatherData),
         aqi = aqiValue\<rparr>,
      hourly =
        \<lparr>hourly_time = hr_time (fc_hourly weatherData),
         hourly_temperature = hr_temperature_2m (fc_hourly weatherData),
         hourly_precipitation = hr_precipitation_probability (fc_hourly weatherData),
         hourly_weatherCode = hr_weather_code (fc_hourly weatherData)\<rparr>,
      daily =
        \<lparr>daily_time = dy_time (fc_daily weatherData),
         tempMax = dy_temperature_2m_max (fc_daily weatherData),
         tempMin = dy_temperature_2m_min (fc_daily weatherData),
         daily_weatherCode = dy_weather_code (fc_daily weatherData)\<rparr>,
      location =
        \<lparr>name = locationName, country = country', latitude = lat, longitude = lon,
         timezone = fc_timezone weatherData\<rparr>\<rparr>"

text \<open>
  \<^verbatim>\<open>
  let aqiValue = 0;
  if (aqiRes.ok) {
    const aqiData = await aqiRes.json();
    aqiValue = aqiData.current?.us_aqi || 0;
  }
  \<close>
  \<open>Inl\<close> when \<^verbatim>\<open>aqiRes.json()\<close> rejects.
\<close>

definition aqi_of :: "real option response \<Rightarrow> failure + real" where
  "aqi_of aqiRes =
     (if ok aqiRes then
        (case json aqiRes of
           None \<Rightarrow> Inl SyntaxFailure
         | Some None \<Rightarrow> Inr 0
         | Some (Some us_aqi) \<Rightarrow> Inr (if us_aqi = 0 then 0 else us_aqi))
      else Inr 0)"

text \<open>
  \<^verbatim>\<open>
  const [weatherRes, aqiRes] = await Promise.all([
    fetch(`${BASE_URL}?${weatherParams.toString()}`),
    fetch(`${AQI_URL}?${aqiParams.toString()}`)
  ]);
  if (!weatherRes.ok) throw new Error('Failed to fetch weather data');
  const weatherData = await weatherRes.json();
  ...
  return { current: {...}, hourly: {...}, daily: {...}, location: {...} };
  \<close>
  Both calls of \<^verbatim>\<open>fetch\<close> are made while the array is built, before
  \<^verbatim>\<open>Promise.all\<close> is awaited: both requests are issued whatever becomes of either.
  \<^verbatim>\<open>Promise.all\<close> rejects as soon as one of the two promises rejects. A forecast body
  that is not JSON, or lacks a part that is read, makes the function throw as well:
  such a body is \<open>None\<close>.
\<close>

definition fetchWeather ::
  "network \<Rightarrow> real \<Rightarrow> real \<Rightarrow> string \<Rightarrow> string \<Rightarrow> (failure + WeatherData) \<times> request list"
where
  "fetchWeather net lat lon locationName country' =
     (let requests = [ForecastRequest lat lon, AirQualityRequest lat lon] in
      case forecast_api net lat lon of
        Rejected \<Rightarrow> (Inl NetworkFailure, requests)
      | Resolved weatherRes \<Rightarrow>
          (case air_quality_api net lat lon of
             Rejected \<Rightarrow> (Inl NetworkFailure, requests)
           | Resolved aqiRes \<Rightarrow>
               (if \<not> ok weatherRes then
                  (Inl (ErrorThrown ''Failed to fetch weather data''), requests)
                else
                  (case json weatherRes of
                     None \<Rightarrow> (Inl SyntaxFailure, requests)
                   | Some weatherData \<Rightarrow>
                       (case aqi_of aqiRes of
                          Inl e \<Rightarrow> (Inl e, requests)
                        | Inr aqiValue \<Rightarrow>
                            (Inr (weather_of weatherData aqiValue lat lon locationName country'),
                             requests))))))"

section \<open>Properties of the weather fetch\<close>

lemma fetchWeather_requests:
  "snd (fetchWeather net lat lon locationName country') =
     [ForecastRequest lat lon, AirQualityRequest lat lon]"
  by (simp add: fetchWeather_def Let_def split: fetched.splits option.splits sum.splits)

text \<open>
  An air-quality response with a status that is not ok does not fail the fetch: the
  index is 0.
\<close>

lemma fetchWeather_aqi_not_ok:
  assumes "forecast_api net lat lon = Resolved weatherRes"
    and "ok weatherRes" and "json weatherRes = Some weatherData"
    and "air_quality_api net lat lon = Resolved aqiRes" and "\<not> ok aqiRes"
  shows "fst (fetchWeather net lat lon locationName country') =
           Inr (weather_of weatherData 0 lat lon locationName country')"
  using assms by (simp add: fetchWeather_def aqi_of_def)

lemma weather_of_aqi: "aqi (current (weather_of weatherData aqiValue lat lon n c)) = aqiValue"
  by (simp add: weather_of_def)

text \<open>Every failure of the forecast call fails the fetch.\<close>

lemma fetchWeather_forecast_rejected:
  "forecast_api net lat lon = Rejected \<Longrightarrow>
     fst (fetchWeather net lat lon locationName country') = Inl NetworkFailure"
  by (simp add: fetchWeather_def)

lemma fetchWeather_forecast_not_ok:
  assumes "forecast_api net lat lon = Resolved weatherRes" and "\<not> ok weatherRes"
  shows "isl (fst (fetchWeather net lat lon locationName country'))"
  using assms by (simp add: fetchWeather_def Let_def split: fetched.splits)

lemma fetchWeather_forecast_unreadable:
  assumes "forecast_api net lat lon = Resolved weatherRes" and "json weatherRes = None"
  shows "isl (fst (fetchWeather net lat lon locationName country'))"
  using assms by (simp add: fetchWeather_def Let_def split: fetched.splits)

text \<open>
  A night in New York, as the forecast service reports it, and an air-quality
  service that cannot be reached.
\<close>

definition new_york_forecast :: forecast_json where
  "new_york_forecast =
     \<lparr>fc_current =
        \<lparr>cur_temperature_2m = 11.4, cur_weather_code = 3, cur_is_day = 0,
         cur_wind_speed_10m = 9.7, cur_wind_direction_10m = 250,
         cur_relative_humidity_2m = 62, cur_uv_index = 0,
         cur_apparent_temperature = 9.1\<rparr>,
      fc_hourly =
        \<lparr>hr_time = [''2026-11-03T00:00''], hr_temperature_2m = [11.4],
         hr_precipitation_probability = [5], hr_weather_code = [3]\<rparr>,
      fc_daily =
        \<lparr>dy_time = [''2026-11-03''], dy_temperature_2m_max = [14.2],
         dy_temperature_2m_min = [8.3], dy_weather_code = [3]\<rparr>,
      fc_timezone = ''America/New_York''\<rparr>"

definition forecast_up :: "real \<Rightarrow> real \<Rightarrow> forecast_json fetched" where
  "forecast_up lat lon = Resolved (Response True (Some ''application/json'') (Some new_york_forecast))"

definition air_quality_unreachable :: network where
  "air_quality_unreachable =
     \<lparr>forecast_api = forecast_up, air_quality_api = (\<lambda>lat lon. Rejected)\<rparr>"

definition air_quality_unavailable :: network where
  "air_quality_unavailable =
     \<lparr>forecast_api = forecast_up,
      air_quality_api = (\<lambda>lat lon. Resolved (Response False (Some ''text/html'') None))\<rparr>"

text \<open>
  C2. Both requests are issued whatever becomes of either (\<open>fetchWeather_requests\<close>),
  a failure of the forecast call fails the fetch, and an air-quality response that
  is not ok gives an index of 0. An air-quality call that fails by rejecting is not
  absorbed: with a forecast service that answers and an air-quality service that
  cannot be reached, both requests are issued and the whole fetch fails.
\<close>

theorem fetchWeather_air_quality_rejected:
  "fetchWeather air_quality_unreachable 40.7128 (- 74.006) ''New York'' ''United States'' =
     (Inl NetworkFailure, [ForecastRequest 40.7128 (- 74.006), AirQualityRequest 40.7128 (- 74.006)])"
  by (simp add: fetchWeather_def air_quality_unreachable_def forecast_up_def)

lemma fetchWeather_air_quality_unavailable:
  "fst (fetchWeather air_quality_unavailable 40.7128 (- 74.006) ''New York'' ''United States'') =
     Inr (weather_of new_york_forecast 0 40.7128 (- 74.006) ''New York'' ''United States'')"
  by (simp add: fetchWeather_def air_quality_unavailable_def forecast_up_def aqi_of_def)

text \<open>
  The other way an air-quality call fails the fetch: a response that is ok with a
  body that is not JSON.
\<close>

lemma fetchWeather_air_quality_not_json:
  "fst (fetchWeather
      \<lparr>forecast_api = forecast_up,
       air_quality_api = (\<lambda>lat lon. Resolved (Response True (Some ''text/html'') None))\<rparr>
      40.7128 (- 74.006) ''New York'' ''United States'') = Inl SyntaxFailure"
  by (simp add: fetchWeather_def forecast_up_def aqi_of_def)

section \<open>The cache and the weather load (App.tsx: getCache, setCache, isCacheValid, loadWeather)\<close>

text \<open>
  \<^verbatim>\<open>const CACHE_KEY_WEATHER = 'skycast_weather_cache';\<close>
  \<^verbatim>\<open>const WEATHER_TTL = 15 * 60 * 1000;\<close>
\<close>

definition CACHE_KEY_WEATHER :: string where
  "CACHE_KEY_WEATHER = ''skycast_weather_cache''"

definition WEATHER_TTL :: int where
  "WEATHER_TTL = 15 * 60 * 1000"

text \<open>
  The object \<^verbatim>\<open>setCache\<close> serialises, \<^verbatim>\<open>{ data, timestamp: Date.now() }\<close>, with the
  time in milliseconds.
\<close>

record cache_entry =
  data :: WeatherData
  timestamp :: int

text \<open>
  What the component lives in. \<^verbatim>\<open>localStorage\<close> is not part of it: it is state. The
  built-in \<^verbatim>\<open>JSON.parse\<close> and \<^verbatim>\<open>JSON.stringify\<close> are parameters; \<open>JSON_parse\<close> is
  \<open>None\<close> where \<^verbatim>\<open>JSON.parse\<close> throws and where the value it gives is not an object
  with a numeric \<^verbatim>\<open>timestamp\<close> (such a value fails the validity test, as a missing
  item does); the \<^verbatim>\<open>data\<close> of an entry is weather data, as the cast
  \<^verbatim>\<open>cachedWeather.data as WeatherData\<close> takes it to be. \<^verbatim>\<open>Date.now()\<close> is read when
  the cache is tested and again when the cache is written, after the fetch.

  The operator \<^verbatim>\<open>-\<close> on two coordinates is the subtraction of the engine, in
  binary64: the difference rounded to a double, which is not always the difference
  of the two real numbers. It is the parameter \<open>minus\<close>, and what is proved holds
  whatever function it is.
\<close>

record browser =
  net :: network
  JSON_parse :: "string \<Rightarrow> cache_entry option"
  JSON_stringify :: "cache_entry \<Rightarrow> string"
  now_at_check :: int
  now_at_store :: int
  minus :: "real \<Rightarrow> real \<Rightarrow> real"

text \<open>
  The literal \<^verbatim>\<open>0.05\<close> of the proximity test is the double nearest to one twentieth,
  \<^verbatim>\<open>0x1.999999999999ap-5\<close>, a little above it.
\<close>

definition tolerance :: real where
  "tolerance = 3602879701896397 / 2 ^ 56"

text \<open>
  The state \<^verbatim>\<open>loadWeather\<close> reads and writes: three of the component's state
  variables and the browser's local storage, a map from keys to strings.
\<close>

record app_state =
  weather :: "WeatherData option"
  loading :: bool
  error :: "string option"
  localStorage :: "string \<rightharpoonup> string"

text \<open>
  \<^verbatim>\<open>
  const getCache = (key: string) => {
    const item = localStorage.getItem(key);
    if (!item) return null;
    try { return JSON.parse(item); } catch { return null; }
  };
  \<close>
\<close>

definition getCache :: "browser \<Rightarrow> (string \<rightharpoonup> string) \<Rightarrow> string \<Rightarrow> cache_entry option" where
  "getCache b storage key =
     (case storage key of
        None \<Rightarrow> None
      | Some item \<Rightarrow> (if item = [] then None else JSON_parse b item))"

text \<open>
  \<^verbatim>\<open>
  const setCache = (key: string, data: any) => {
    localStorage.setItem(key, JSON.stringify({ data, timestamp: Date.now() }));
  };
  \<close>
\<close>

definition setCache ::
  "browser \<Rightarrow> (string \<rightharpoonup> string) \<Rightarrow> string \<Rightarrow> WeatherData \<Rightarrow> (string \<rightharpoonup> string)"
where
  "setCache b storage key d =
     storage(key \<mapsto> JSON_stringify b \<lparr>data = d, timestamp = now_at_store b\<rparr>)"

text \<open>
  \<^verbatim>\<open>const isCacheValid = (timestamp: number, ttl: number) => (Date.now() - timestamp) < ttl;\<close>
\<close>

definition isCacheValid :: "browser \<Rightarrow> int \<Rightarrow> int \<Rightarrow> bool" where
  "isCacheValid b ts ttl = (now_at_check b - ts < ttl)"

text \<open>
  The test of the first part of \<^verbatim>\<open>loadWeather\<close>:
  \<^verbatim>\<open>
  const cachedWeather = getCache(CACHE_KEY_WEATHER);
  if (!forceRefresh && cachedWeather && isCacheValid(cachedWeather.timestamp, WEATHER_TTL)) {
    const data = cachedWeather.data as WeatherData;
    if (Math.abs(data.location.latitude - lat) < 0.05 &&
        Math.abs(data.location.longitude - lon) < 0.05) {
  \<close>
  It gives the cached payload when both conditions hold. \<^verbatim>\<open>Math.abs\<close> and \<^verbatim>\<open><\<close> are
  exact on doubles.
\<close>

definition cached_for ::
  "browser \<Rightarrow> (string \<rightharpoonup> string) \<Rightarrow> real \<Rightarrow> real \<Rightarrow> bool \<Rightarrow> WeatherData option"
where
  "cached_for b storage lat lon forceRefresh =
     (case getCache b storage CACHE_KEY_WEATHER of
        None \<Rightarrow> None
      | Some cachedWeather \<Rightarrow>
          (if \<not> forceRefresh \<and> isCacheValid b (timestamp cachedWeather) WEATHER_TTL then
             (if \<bar>minus b (latitude (location (data cachedWeather))) lat\<bar> < tolerance
                 \<and> \<bar>minus b (longitude (location (data cachedWeather))) lon\<bar> < tolerance
              then Some (data cachedWeather)
              else None)
           else None))"

text \<open>
  \<^verbatim>\<open>
  const loadWeather = useCallback(async (lat, lon, name, country, forceRefresh = false) => {
    const cachedWeather = getCache(CACHE_KEY_WEATHER);
    if (!forceRefresh && cachedWeather && isCacheValid(...)) {
      const data = cachedWeather.data as WeatherData;
      if (...) {
        setWeather(data);
        setLoading(false);
        updateAiInsight(data);
        // updateActivityExplorer(data);
        return;
      }
    }
    setLoading(true);
    setError(null);
    try {
      const data = await fetchWeather(lat, lon, name, country);
      setWeather(data);
      setCache(CACHE_KEY_WEATHER, data);
    } catch (err) {
      setError('Telemetry link failed. Check connection.');
    } finally {
      setLoading(false);
    }
  }, []);
  \<close>
  The result is how the call ends (\<open>None\<close> when it returns, the thrown value when
  its promise rejects), the state after it, and the requests issued.

  The declaration of \<^verbatim>\<open>updateAiInsight\<close> is commented out in App.tsx, and nothing else
  declares the name: the call on the cached path, which is not commented out, is
  reached after the two state writes and throws a \<^verbatim>\<open>ReferenceError\<close>.
\<close>

definition loadWeather ::
  "browser \<Rightarrow> app_state \<Rightarrow> real \<Rightarrow> real \<Rightarrow> string \<Rightarrow> string \<Rightarrow> bool
     \<Rightarrow> failure option \<times> app_state \<times> request list"
where
  "loadWeather b st lat lon name' country' forceRefresh =
     (case cached_for b (localStorage st) lat lon forceRefresh of
        Some d \<Rightarrow>
          (Some (ReferenceError ''updateAiInsight is not defined''),
           st\<lparr>weather := Some d, loading := False\<rparr>,
           [])
      | None \<Rightarrow>
          (let st1 = st\<lparr>loading := True, error := None\<rparr> in
           case fetchWeather (net b) lat lon name' country' of
             (Inr d, requests) \<Rightarrow>
               (None,
                st1\<lparr>weather := Some d,
                    localStorage := setCache b (localStorage st1) CACHE_KEY_WEATHER d,
                    loading := False\<rparr>,
                requests)
           | (Inl err, requests) \<Rightarrow>
               (None,
                st1\<lparr>error := Some ''Telemetry link failed. Check connection.'',
                    loading := False\<rparr>,
                requests)))"

section \<open>Properties of the weather load\<close>

lemma cached_for_forced: "cached_for b storage lat lon True = None"
  by (simp add: cached_for_def split: option.splits)

lemma cached_for_hit:
  assumes "storage CACHE_KEY_WEATHER = Some item" and "item \<noteq> []"
    and "JSON_parse b item = Some cached"
    and "now_at_check b - timestamp cached < WEATHER_TTL"
    and "\<bar>minus b (latitude (location (data cached))) lat\<bar> < tolerance"
    and "\<bar>minus b (longitude (location (data cached))) lon\<bar> < tolerance"
  shows "cached_for b storage lat lon False = Some (data cached)"
  using assms by (simp add: cached_for_def getCache_def isCacheValid_def)

lemma cached_for_far:
  assumes "getCache b storage CACHE_KEY_WEATHER = Some cached"
    and "\<not> \<bar>minus b (latitude (location (data cached))) lat\<bar> < tolerance
         \<or> \<not> \<bar>minus b (longitude (location (data cached))) lon\<bar> < tolerance"
  shows "cached_for b storage lat lon forceRefresh = None"
  using assms by (auto simp add: cached_for_def)

lemma loadWeather_hit:
  assumes "cached_for b (localStorage st) lat lon forceRefresh = Some d"
  shows "loadWeather b st lat lon name' country' forceRefresh =
           (Some (ReferenceError ''updateAiInsight is not defined''),
            st\<lparr>weather := Some d, loading := False\<rparr>, [])"
  using assms by (simp add: loadWeather_def)

lemma loadWeather_miss_requests:
  assumes "cached_for b (localStorage st) lat lon forceRefresh = None"
  shows "snd (snd (loadWeather b st lat lon name' country' forceRefresh)) =
           [ForecastRequest lat lon, AirQualityRequest lat lon]"
proof -
  obtain r requests where f: "fetchWeather (net b) lat lon name' country' = (r, requests)"
    by (cases "fetchWeather (net b) lat lon name' country'")
  with fetchWeather_requests [of "net b" lat lon name' country']
  have "requests = [ForecastRequest lat lon, AirQualityRequest lat lon]"
    by simp
  with assms f show ?thesis
    by (cases r) (simp_all add: loadWeather_def)
qed

lemma loadWeather_miss_failure:
  assumes "cached_for b (localStorage st) lat lon forceRefresh = None"
    and "fst (fetchWeather (net b) lat lon name' country') = Inl err"
  shows "loadWeather b st lat lon name' country' forceRefresh =
           (None,
            st\<lparr>loading := False, error := Some ''Telemetry link failed. Check connection.''\<rparr>,
            [ForecastRequest lat lon, AirQualityRequest lat lon])"
proof -
  obtain r requests where f: "fetchWeather (net b) lat lon name' country' = (r, requests)"
    by (cases "fetchWeather (net b) lat lon name' country'")
  with fetchWeather_requests [of "net b" lat lon name' country']
  have "requests = [ForecastRequest lat lon, AirQualityRequest lat lon]"
    by simp
  moreover from f assms(2) have "r = Inl err"
    by simp
  ultimately show ?thesis
    using assms(1) f by (simp add: loadWeather_def)
qed

lemma loadWeather_miss_success:
  assumes "cached_for b (localStorage st) lat lon forceRefresh = None"
    and "fst (fetchWeather (net b) lat lon name' country') = Inr d"
  shows "loadWeather b st lat lon name' country' forceRefresh =
           (None,
            st\<lparr>loading := False, error := None, weather := Some d,
               localStorage := setCache b (localStorage st) CACHE_KEY_WEATHER d\<rparr>,
            [ForecastRequest lat lon, AirQualityRequest lat lon])"
proof -
  obtain r requests where f: "fetchWeather (net b) lat lon name' country' = (r, requests)"
    by (cases "fetchWeather (net b) lat lon name' country'")
  with fetchWeather_requests [of "net b" lat lon name' country']
  have "requests = [ForecastRequest lat lon, AirQualityRequest lat lon]"
    by simp
  moreover from f assms(2) have "r = Inr d"
    by simp
  ultimately show ?thesis
    using assms(1) f by (simp add: loadWeather_def)
qed


lemma loadWeather_requests_miss:
  assumes "snd (snd (loadWeather b st lat lon name' country' forceRefresh)) \<noteq> []"
  shows "cached_for b (localStorage st) lat lon forceRefresh = None"
proof (cases "cached_for b (localStorage st) lat lon forceRefresh")
  case None
  then show ?thesis .
next
  case (Some d)
  from loadWeather_hit [OF Some, of name' country'] assms show ?thesis
    by simp
qed

text \<open>
  A browser for the examples: the forecast service answers, the cache holds one
  entry written five minutes before the call, for the place at latitude 40.75 and
  longitude -74. The place asked for is at latitude 40.71875 and longitude
  -74.03125. The four coordinates are doubles, and so is the difference of each
  pair, 0.03125: on them the subtraction of the engine is the subtraction of the
  real numbers, which the example takes for \<open>minus\<close>.
\<close>

definition new_york_weather :: WeatherData where
  "new_york_weather =
     weather_of new_york_forecast 42 40.75 (- 74) ''New York'' ''United States''"

definition serviceable :: network where
  "serviceable =
     \<lparr>forecast_api = forecast_up,
      air_quality_api = (\<lambda>lat lon. Resolved (Response True (Some ''application/json'')
                                                (Some (Some 42))))\<rparr>"

definition five_minutes_old :: browser where
  "five_minutes_old =
     \<lparr>net = serviceable,
      JSON_parse = (\<lambda>item. if item = ''{cached}''
                           then Some \<lparr>data = new_york_weather, timestamp = 1793671200000 - 300000\<rparr>
                           else None),
      JSON_stringify = (\<lambda>entry. ''{fresh}''),
      now_at_check = 1793671200000,
      now_at_store = 1793671200450,
      minus = (\<lambda>x y. x - y)\<rparr>"

definition on_start :: app_state where
  "on_start =
     \<lparr>weather = None, loading = True, error = None,
      localStorage = [CACHE_KEY_WEATHER \<mapsto> ''{cached}'']\<rparr>"

lemma five_minutes_old_hit:
  "cached_for five_minutes_old (localStorage on_start) 40.71875 (- 74.03125) False = Some new_york_weather"
  by (simp add: cached_for_def getCache_def isCacheValid_def five_minutes_old_def on_start_def
      WEATHER_TTL_def new_york_weather_def weather_of_def tolerance_def)

text \<open>
  C1. A call that is not forced, with a cache item that parses, is younger than the
  15 minutes of \<open>WEATHER_TTL\<close> and passes the proximity test as the code computes it
  (the absolute value of the engine's difference of the cached and the requested
  latitude is below the double 0.05, and so for the longitude), sets the displayed
  weather to the cached payload, clears the loading flag, leaves the storage as it
  is and ends without a request.
\<close>

theorem loadWeather_serves_cache:
  assumes "localStorage st CACHE_KEY_WEATHER = Some item" and "item \<noteq> []"
    and "JSON_parse b item = Some cached"
    and "now_at_check b - timestamp cached < WEATHER_TTL"
    and "\<bar>minus b (latitude (location (data cached))) lat\<bar> < tolerance"
    and "\<bar>minus b (longitude (location (data cached))) lon\<bar> < tolerance"
  shows "weather (fst (snd (loadWeather b st lat lon name' country' False))) = Some (data cached)
         \<and> loading (fst (snd (loadWeather b st lat lon name' country' False))) = False
         \<and> localStorage (fst (snd (loadWeather b st lat lon name' country' False))) = localStorage st
         \<and> snd (snd (loadWeather b st lat lon name' country' False)) = []"
proof -
  have "cached_for b (localStorage st) lat lon False = Some (data cached)"
    by (rule cached_for_hit [of "localStorage st", OF assms])
  from loadWeather_hit [OF this, of name' country'] show ?thesis
    by simp
qed

theorem loadWeather_serves_cache_witness:
  "weather (fst (snd (loadWeather five_minutes_old on_start 40.71875 (- 74.03125)
      ''New York'' ''United States'' False))) = Some new_york_weather
   \<and> snd (snd (loadWeather five_minutes_old on_start 40.71875 (- 74.03125)
      ''New York'' ''United States'' False)) = []"
proof -
  let ?cached = "\<lparr>data = new_york_weather, timestamp = 1793671200000 - 300000\<rparr>"
  have 1: "localStorage on_start CACHE_KEY_WEATHER = Some ''{cached}''"
    by (simp add: on_start_def)
  have 2: "''{cached}'' \<noteq> []"
    by simp
  have 3: "JSON_parse five_minutes_old ''{cached}'' = Some ?cached"
    by (simp add: five_minutes_old_def)
  have 4: "now_at_check five_minutes_old - timestamp ?cached < WEATHER_TTL"
    by (simp add: five_minutes_old_def WEATHER_TTL_def)
  have 5: "\<bar>minus five_minutes_old (latitude (location (data ?cached))) 40.71875\<bar>
      < tolerance"
    by (simp add: five_minutes_old_def new_york_weather_def weather_of_def tolerance_def)
  have 6: "\<bar>minus five_minutes_old (longitude (location (data ?cached))) (- 74.03125)\<bar>
      < tolerance"
    by (simp add: five_minutes_old_def new_york_weather_def weather_of_def tolerance_def)
  from loadWeather_serves_cache [OF 1 2 3 4 5 6, of "''New York''" "''United States''"]
  show ?thesis
    by simp
qed

text \<open>How the call on the cached path ends: with the reference error.\<close>

lemma loadWeather_serves_cache_outcome:
  "fst (loadWeather five_minutes_old on_start 40.71875 (- 74.03125) ''New York'' ''United States'' False) =
     Some (ReferenceError ''updateAiInsight is not defined'')"
  using loadWeather_hit [OF five_minutes_old_hit, of "''New York''" "''United States''"]
  by simp

text \<open>
  Where the subtraction of the engine rounds. The doubles written 0.02 and 0.03 are
  5764607523034235 / 2^58 and 1080863910568919 / 2^55; their sum as real numbers is
  below one twentieth, and the engine's \<^verbatim>\<open>0.02 - (-0.03)\<close> is the double 0.05 itself.
  With the entry of the cache at longitude 0.02 and a call for longitude -0.03 the
  test \<^verbatim>\<open>Math.abs(...) < 0.05\<close> is false, and the call goes to the network.
\<close>

definition double_0_02 :: real where
  "double_0_02 = 5764607523034235 / 2 ^ 58"

definition double_0_03 :: real where
  "double_0_03 = 1080863910568919 / 2 ^ 55"

definition rounding_up :: browser where
  "rounding_up =
     \<lparr>net = serviceable,
      JSON_parse = (\<lambda>item. if item = ''{cached}''
                           then Some \<lparr>data = weather_of new_york_forecast 42 0 double_0_02
                                                ''Null Island'' [],
                                      timestamp = 1793671200000 - 300000\<rparr>
                           else None),
      JSON_stringify = (\<lambda>entry. ''{fresh}''),
      now_at_check = 1793671200000,
      now_at_store = 1793671200450,
      minus = (\<lambda>x y. if x = double_0_02 \<and> y = - double_0_03 then tolerance else x - y)\<rparr>"

lemma rounding_up_real_difference:
  "\<bar>double_0_02 - (- double_0_03)\<bar> < 1 / 20
   \<and> \<bar>double_0_02 - (- double_0_03)\<bar> < tolerance"
  by (simp add: double_0_02_def double_0_03_def tolerance_def)

lemma rounding_up_fetches:
  "snd (snd (loadWeather rounding_up on_start 0 (- double_0_03) ''Null Island'' [] False)) =
     [ForecastRequest 0 (- double_0_03), AirQualityRequest 0 (- double_0_03)]"
proof -
  have "cached_for rounding_up (localStorage on_start) 0 (- double_0_03) False = None"
    by (simp add: cached_for_def getCache_def isCacheValid_def rounding_up_def on_start_def
        WEATHER_TTL_def weather_of_def)
  then show ?thesis
    by (rule loadWeather_miss_requests)
qed

text \<open>
  C5. A forced call issues the two requests of the weather fetch, whatever the cache
  holds.
\<close>

theorem loadWeather_forced_fetches:
  "snd (snd (loadWeather b st lat lon name' country' True)) =
     [ForecastRequest lat lon, AirQualityRequest lat lon]"
  by (rule loadWeather_miss_requests [OF cached_for_forced])

text \<open>
  The same browser, state and place as above, where the call that is not forced is
  served from the cache: the forced call goes to the network.
\<close>

theorem loadWeather_forced_fetches_witness:
  "cached_for five_minutes_old (localStorage on_start) 40.71875 (- 74.03125) False = Some new_york_weather
   \<and> snd (snd (loadWeather five_minutes_old on_start 40.71875 (- 74.03125)
        ''New York'' ''United States'' True)) =
       [ForecastRequest 40.71875 (- 74.03125), AirQualityRequest 40.71875 (- 74.03125)]"
  using loadWeather_forced_fetches [of five_minutes_old on_start "40.71875" "- 74.03125"
      "''New York''" "''United States''"] five_minutes_old_hit
  by simp

text \<open>
  C6. When the call goes to the network and the weather fetch fails, the call
  returns with the error message set and the loading flag cleared; the storage is
  what it was, and so is the displayed weather: the cached payload is not put in
  its place.
\<close>

theorem loadWeather_fetch_failure:
  assumes "snd (snd (loadWeather b st lat lon name' country' forceRefresh)) \<noteq> []"
    and "fst (fetchWeather (net b) lat lon name' country') = Inl err"
  shows "fst (loadWeather b st lat lon name' country' forceRefresh) = None
         \<and> error (fst (snd (loadWeather b st lat lon name' country' forceRefresh))) =
             Some ''Telemetry link failed. Check connection.''
         \<and> loading (fst (snd (loadWeather b st lat lon name' country' forceRefresh))) = False
         \<and> localStorage (fst (snd (loadWeather b st lat lon name' country' forceRefresh))) =
             localStorage st
         \<and> weather (fst (snd (loadWeather b st lat lon name' country' forceRefresh))) = weather st"
proof -
  have "cached_for b (localStorage st) lat lon forceRefresh = None"
    by (rule loadWeather_requests_miss [OF assms(1)])
  from loadWeather_miss_failure [OF this assms(2)] show ?thesis
    by simp
qed

text \<open>
  The forecast service answers 503 to a forced call, while the cache holds the entry
  of five minutes ago.
\<close>

definition forecast_down :: browser where
  "forecast_down =
     five_minutes_old\<lparr>net :=
       \<lparr>forecast_api = (\<lambda>lat lon. Resolved (Response False (Some ''text/html'') None)),
        air_quality_api = (\<lambda>lat lon. Resolved (Response True (Some ''application/json'')
                                                  (Some (Some 42))))\<rparr>\<rparr>"

theorem loadWeather_fetch_failure_witness:
  "snd (snd (loadWeather forecast_down on_start 40.71875 (- 74.03125) ''New York'' ''United States'' True))
     = [ForecastRequest 40.71875 (- 74.03125), AirQualityRequest 40.71875 (- 74.03125)]
   \<and> fst (fetchWeather (net forecast_down) 40.71875 (- 74.03125) ''New York'' ''United States'') =
       Inl (ErrorThrown ''Failed to fetch weather data'')
   \<and> error (fst (snd (loadWeather forecast_down on_start 40.71875 (- 74.03125)
        ''New York'' ''United States'' True))) = Some ''Telemetry link failed. Check connection.''
   \<and> localStorage (fst (snd (loadWeather forecast_down on_start 40.71875 (- 74.03125)
        ''New York'' ''United States'' True))) CACHE_KEY_WEATHER = Some ''{cached}''
   \<and> weather (fst (snd (loadWeather forecast_down on_start 40.71875 (- 74.03125)
        ''New York'' ''United States'' True))) = None"
proof -
  have r: "snd (snd (loadWeather forecast_down on_start 40.71875 (- 74.03125)
      ''New York'' ''United States'' True)) =
        [ForecastRequest 40.71875 (- 74.03125), AirQualityRequest 40.71875 (- 74.03125)]"
    by (rule loadWeather_miss_requests [OF cached_for_forced])
  then have 1: "snd (snd (loadWeather forecast_down on_start 40.71875 (- 74.03125)
      ''New York'' ''United States'' True)) \<noteq> []"
    by simp
  have 2: "fst (fetchWeather (net forecast_down) 40.71875 (- 74.03125) ''New York'' ''United States'') =
      Inl (ErrorThrown ''Failed to fetch weather data'')"
    by (simp add: fetchWeather_def forecast_down_def)
  from loadWeather_fetch_failure [OF 1 2] r 2 show ?thesis
    by (simp add: on_start_def)
qed

text \<open>
  After a fetch that succeeds the cache is overwritten, with the time of the write.
\<close>

lemma loadWeather_fetch_success:
  assumes "cached_for b (localStorage st) lat lon forceRefresh = None"
    and "fst (fetchWeather (net b) lat lon name' country') = Inr d"
  shows "weather (fst (snd (loadWeather b st lat lon name' country' forceRefresh))) = Some d
         \<and> localStorage (fst (snd (loadWeather b st lat lon name' country' forceRefresh)))
              CACHE_KEY_WEATHER =
             Some (JSON_stringify b \<lparr>data = d, timestamp = now_at_store b\<rparr>)"
  using loadWeather_miss_success [OF assms] by (simp add: setCache_def)

section \<open>Local news (newsService: fetchLocationNews; geminiService: getAIIntelligence)\<close>

text \<open>\<^verbatim>\<open>interface NewsItem\<close> of types.ts.\<close>

record NewsItem =
  title :: string
  snippet :: string
  url :: string
  source :: string
  date :: string

text \<open>
  Of the provider's response \<^verbatim>\<open>getAIIntelligence\<close> reads
  \<^verbatim>\<open>response.candidates?.[0]?.groundingMetadata?.groundingChunks\<close>, and of a chunk
  \<^verbatim>\<open>chunk.web?.uri\<close> and \<^verbatim>\<open>chunk.web.title\<close>; what is absent is \<open>None\<close>.
\<close>

record grounding_chunk =
  web_uri :: "string option"
  web_title :: "string option"

text \<open>
  \<^verbatim>\<open>
  if (chunk.web?.uri) {
    newsItems.push({
      title: chunk.web.title || "News Update",
      snippet: "Direct intelligence report from web telemetry. Click to view full coverage.",
      url: chunk.web.uri,
      source: "Verified Web Source",
      date: new Date().toISOString()
    });
  }
  \<close>
  The empty string is falsy, as an absent property is.
\<close>

definition news_of_chunk :: "string \<Rightarrow> grounding_chunk \<Rightarrow> NewsItem option" where
  "news_of_chunk today chunk =
     (case web_uri chunk of
        None \<Rightarrow> None
      | Some uri \<Rightarrow>
          (if uri = [] then None
           else Some
             \<lparr>title = (case web_title chunk of
                         None \<Rightarrow> ''News Update''
                       | Some t \<Rightarrow> (if t = [] then ''News Update'' else t)),
              snippet = ''Direct intelligence report from web telemetry. Click to view full coverage.'',
              url = uri,
              source = ''Verified Web Source'',
              date = today\<rparr>))"

text \<open>
  \<^verbatim>\<open>new Map(entries)\<close>: the entries are set one after the other; setting a key the map
  has replaces the value where the key stands, setting a new key appends.
\<close>

fun map_set :: "'k \<Rightarrow> 'v \<Rightarrow> ('k \<times> 'v) list \<Rightarrow> ('k \<times> 'v) list" where
  "map_set k v [] = [(k, v)]"
| "map_set k v ((k', v') # m) =
     (if k' = k then (k, v) # m else (k', v') # map_set k v m)"

definition new_Map :: "('k \<times> 'v) list \<Rightarrow> ('k \<times> 'v) list" where
  "new_Map entries = foldl (\<lambda>m (k, v). map_set k v m) [] entries"

text \<open>
  \<^verbatim>\<open>
  const preferredCountry = localStorage.getItem('preferredCountry') || '';
  const prompt = `What are the most recent news stories and events happening in
    ${locationName}${preferredCountry ? `, ${preferredCountry}` : ''}? Provide a summary
    of the top news.`;
  \<close>
  (one line in the source).
\<close>

definition news_prompt :: "(string \<rightharpoonup> string) \<Rightarrow> string \<Rightarrow> string" where
  "news_prompt storage locationName =
     (let preferredCountry = (case storage ''preferredCountry'' of None \<Rightarrow> [] | Some c \<Rightarrow> c) in
      ''What are the most recent news stories and events happening in '' @ locationName
        @ (if preferredCountry \<noteq> [] then '', '' @ preferredCountry else [])
        @ ''? Provide a summary of the top news.'')"

text \<open>
  \<^verbatim>\<open>
  try {
    const response = await withRetry(() => ai.models.generateContent({... contents: prompt ...}));
    const newsItems: NewsItem[] = [];
    const chunks = response.candidates?.[0]?.groundingMetadata?.groundingChunks;
    if (chunks) { chunks.forEach((chunk: any) => { ... }); }
    const uniqueNews = Array.from(new Map(newsItems.map(item => [item.url, item])).values());
    return uniqueNews.slice(0, 6);
  } catch (error) {
    console.error("AI Intelligence Error:", error);
    return [];
  }
  \<close>
  The provider is a function from the prompt to an operation for \<open>withRetry\<close>. The
  result is the list, the provider's world after the call, and the effects of the
  retry wrapper.
\<close>

definition getAIIntelligence ::
  "(string \<Rightarrow> 's \<Rightarrow> (thrown + grounding_chunk list option) \<times> 's) \<Rightarrow> (string \<rightharpoonup> string)
     \<Rightarrow> string \<Rightarrow> 's \<Rightarrow> string \<Rightarrow> NewsItem list \<times> 's \<times> effect list"
where
  "getAIIntelligence generateContent storage today s locationName =
     (case withRetry (generateContent (news_prompt storage locationName))
             default_retries default_delay s of
        ((Inl e, s'), effects) \<Rightarrow> ([], s', effects)
      | ((Inr chunks, s'), effects) \<Rightarrow>
          (let newsItems = (case chunks of
                              None \<Rightarrow> []
                            | Some cs \<Rightarrow> List.map_filter (news_of_chunk today) cs);
               uniqueNews = map snd (new_Map (map (\<lambda>item. (url item, item)) newsItems))
           in (take 6 uniqueNews, s', effects)))"

text \<open>
  \<^verbatim>\<open>String.prototype.includes\<close>: the second string occurs in the first (\<open>includes\<close>
  is taken in Isabelle).
\<close>

fun includes_str :: "string \<Rightarrow> string \<Rightarrow> bool" where
  "includes_str [] sub = (sub = [])"
| "includes_str (c # cs) sub = (take (length sub) (c # cs) = sub \<or> includes_str cs sub)"

text \<open>
  The body of the proxy's response, when it is JSON: an array of news items, or
  something else (the object \<^verbatim>\<open>{ error: ... }\<close> of the proxy's failures).
\<close>

datatype news_body = NewsArray "NewsItem list" | NotAnArray

text \<open>
  \<^verbatim>\<open>
  export const fetchLocationNews = async (locationName: string): Promise<NewsItem[]> => {
    if (!locationName) return [];
    try {
      const response = await fetch(`/api/news?location=${encodeURIComponent(locationName)}`);
      const contentType = response.headers.get('content-type');
      if (response.ok && contentType && contentType.includes('application/json')) {
        const data = await response.json();
        if (Array.isArray(data) && data.length > 0) {
          return data as NewsItem[];
        }
      }
      return await getAIIntelligence(locationName);
    } catch (error) {
      return await getAIIntelligence(locationName);
    }
  };
  \<close>
  The result is the list, the provider's world after the call, the requests to the
  proxy, and the effects of the retry wrapper around the provider.
\<close>

definition fetchLocationNews ::
  "(string \<Rightarrow> news_body fetched)
     \<Rightarrow> (string \<Rightarrow> 's \<Rightarrow> (thrown + grounding_chunk list option) \<times> 's) \<Rightarrow> (string \<rightharpoonup> string)
     \<Rightarrow> string \<Rightarrow> 's \<Rightarrow> string \<Rightarrow> NewsItem list \<times> 's \<times> request list \<times> effect list"
where
  "fetchLocationNews proxy generateContent storage today s locationName =
     (if locationName = [] then ([], s, [], [])
      else
        (let fallback =
               (case getAIIntelligence generateContent storage today s locationName of
                  (items, s', effects) \<Rightarrow>
                    (items, s', [NewsProxyRequest locationName], effects))
         in case proxy locationName of
              Rejected \<Rightarrow> fallback
            | Resolved response \<Rightarrow>
                (if ok response
                    \<and> (case content_type response of
                          None \<Rightarrow> False
                        | Some contentType \<Rightarrow>
                            contentType \<noteq> [] \<and> includes_str contentType ''application/json'')
                 then
                   (case json response of
                      None \<Rightarrow> fallback
                    | Some NotAnArray \<Rightarrow> fallback
                    | Some (NewsArray items) \<Rightarrow>
                        (if length items > 0
                         then (items, s, [NewsProxyRequest locationName], [])
                         else fallback))
                 else fallback)))"

section \<open>Properties of the local news\<close>

text \<open>
  C9. For the empty location name the function returns the empty list at once: no
  request goes to the proxy, the provider is not invoked and its world is untouched.
\<close>

theorem fetchLocationNews_empty_name:
  "fetchLocationNews proxy generateContent storage today s [] = ([], s, [], [])"
  by (simp add: fetchLocationNews_def)

text \<open>Any other name goes to the proxy first.\<close>

lemma fetchLocationNews_proxy_request:
  assumes "locationName \<noteq> []"
  shows "fst (snd (snd (fetchLocationNews proxy generateContent storage today s locationName))) =
           [NewsProxyRequest locationName]"
  using assms
  by (simp add: fetchLocationNews_def Let_def
      split: fetched.splits option.splits news_body.splits prod.splits)

text \<open>
  A proxy that answers with the source of the route instead of JSON, and a provider
  that is unavailable every time: the fallback is tried four times and the list is
  empty.
\<close>

definition provider_unavailable ::
  "string \<Rightarrow> nat \<Rightarrow> (thrown + grounding_chunk list option) \<times> nat"
where
  "provider_unavailable prompt n =
     (Inl \<lparr>status = Some 503, inner_status = None, message = ''UNAVAILABLE''\<rparr>, Suc n)"

lemma provider_unavailable_retried:
  "withRetry (provider_unavailable prompt) default_retries default_delay 0 =
     ((Inl \<lparr>status = Some 503, inner_status = None, message = ''UNAVAILABLE''\<rparr>, 4),
      [Invoke, Wait 1000, Invoke, Wait 2000, Invoke, Wait 4000, Invoke])"
proof -
  have "always_transient (provider_unavailable prompt)"
    by (simp add: always_transient_def provider_unavailable_def isTransient_def status_of_def)
  from always_transient_three_retries [OF this, of 0] show ?thesis
    by (simp add: provider_unavailable_def default_retries_def default_delay_def)
qed

lemma fetchLocationNews_fallback_example:
  "fetchLocationNews (\<lambda>location. Resolved (Response True (Some ''text/plain'') None))
      provider_unavailable Map.empty ''2026-11-03T02:00:00.000Z'' 0 ''Paris'' =
     ([], 4, [NewsProxyRequest ''Paris''],
      [Invoke, Wait 1000, Invoke, Wait 2000, Invoke, Wait 4000, Invoke])"
  by (simp add: fetchLocationNews_def getAIIntelligence_def provider_unavailable_retried)

end
